theory Spec2Isabelle
  imports Main "HOL-Library.Sublist" "HOL-Library.Char_ord" "HOL-Library.List_Lexorder"
    "HOL-Library.Option_ord" "HOL-Library.Product_Lexorder"
begin

section \<open>Values, text and dictionaries\<close>

text \<open>
  The program is \<^verbatim>\<open>news_aggregator.py\<close>. An article is a Python \<^verbatim>\<open>dict\<close>; its values are
  whatever the adapters put there, so the value universe is that of decoded JSON: \<^verbatim>\<open>None\<close>,
  booleans, integers, text, lists and dictionaries (floating-point numbers are left out).
  A dictionary is an association list read with \<open>map_of\<close>.

  Text is a \<open>string\<close>: a list of 8-bit characters, read as the code points U+0000 to U+00FF.
  Text with code points beyond U+00FF is outside the model.
\<close>

datatype pyval =
    PNone
  | PBool bool
  | PInt int
  | PStr string
  | PList "pyval list"
  | PDict "(string \<times> pyval) list"

type_synonym article = "(string \<times> pyval) list"

datatype error =
    KeyError
  | AttributeError
  | TypeError
  | ValueError
  | OverflowError
  | InterfaceError
  | ConnectionError
  | JSONDecodeError
  | OSError

text \<open>\<^verbatim>\<open>d[k]\<close>: the value under the key, or \<^verbatim>\<open>KeyError\<close>.\<close>

definition subscript :: "(string \<times> pyval) list \<Rightarrow> string \<Rightarrow> error + pyval" where
  "subscript d k = (case map_of d k of None \<Rightarrow> Inl KeyError | Some v \<Rightarrow> Inr v)"

subsection \<open>\<^verbatim>\<open>str.lower\<close> and \<^verbatim>\<open>str.strip\<close>\<close>

definition ord :: "char \<Rightarrow> nat" where
  "ord c = of_char c"

definition chr :: "nat \<Rightarrow> char" where
  "chr n = char_of n"

text \<open>
  Python lowers every cased code point: below U+0100 these are A to Z and the Latin-1
  capitals U+00C0 to U+00DE without the multiplication sign U+00D7; each lower-case partner
  is 32 further on.
\<close>

definition py_lower_char :: "char \<Rightarrow> char" where
  "py_lower_char c =
     (let n = ord c
      in if (65 \<le> n \<and> n \<le> 90) \<or> (192 \<le> n \<and> n \<le> 222 \<and> n \<noteq> 215) then chr (n + 32) else c)"

definition py_lower :: "string \<Rightarrow> string" where
  "py_lower s = map py_lower_char s"

text \<open>
  \<^verbatim>\<open>str.isspace\<close> below U+0100: tab to carriage return, the separators U+001C to U+001F,
  space, next line U+0085 and no-break space U+00A0.
\<close>

definition py_isspace :: "char \<Rightarrow> bool" where
  "py_isspace c =
     (let n = ord c
      in (9 \<le> n \<and> n \<le> 13) \<or> (28 \<le> n \<and> n \<le> 32) \<or> n = 133 \<or> n = 160)"

definition py_strip :: "string \<Rightarrow> string" where
  "py_strip s = rev (dropWhile py_isspace (rev (dropWhile py_isspace s)))"

section \<open>Deduplication\<close>

text \<open>
  \<^verbatim>\<open>article['title'].lower().strip()\<close>: \<^verbatim>\<open>KeyError\<close> without the key, \<^verbatim>\<open>AttributeError\<close> when the
  title is not text.
\<close>

definition title_lower :: "article \<Rightarrow> error + string" where
  "title_lower a =
     (case subscript a ''title'' of
        Inl e \<Rightarrow> Inl e
      | Inr (PStr s) \<Rightarrow> Inr (py_strip (py_lower s))
      | Inr _ \<Rightarrow> Inl AttributeError)"

text \<open>
  The loop of \<^verbatim>\<open>deduplicate\<close>, with its two variables \<^verbatim>\<open>seen_titles\<close> and \<^verbatim>\<open>unique_articles\<close>.
  Nothing catches an exception here: it ends the call.
\<close>

fun deduplicate_loop :: "article list \<Rightarrow> string set \<Rightarrow> article list \<Rightarrow> error + article list" where
  "deduplicate_loop [] seen_titles unique_articles = Inr unique_articles"
| "deduplicate_loop (a # as) seen_titles unique_articles =
     (case title_lower a of
        Inl e \<Rightarrow> Inl e
      | Inr t \<Rightarrow>
          if t \<notin> seen_titles \<and> t \<noteq> []
          then deduplicate_loop as (insert t seen_titles) (unique_articles @ [a])
          else deduplicate_loop as seen_titles unique_articles)"

definition deduplicate :: "article list \<Rightarrow> error + article list" where
  "deduplicate articles = deduplicate_loop articles {} []"

text \<open>
  The specification's wording, to compare with: the canonical key of an article, and the
  subsequence of the positions whose key is not empty and is the key of no earlier position.
\<close>

definition has_text_title :: "article \<Rightarrow> bool" where
  "has_text_title a = (case map_of a ''title'' of Some (PStr s) \<Rightarrow> True | _ \<Rightarrow> False)"

definition canonical_key :: "article \<Rightarrow> string" where
  "canonical_key a = (case map_of a ''title'' of Some (PStr s) \<Rightarrow> py_strip (py_lower s) | _ \<Rightarrow> [])"

definition first_occurrence :: "article list \<Rightarrow> nat \<Rightarrow> bool" where
  "first_occurrence L i =
     (canonical_key (L ! i) \<noteq> [] \<and> canonical_key (L ! i) \<notin> canonical_key ` set (take i L))"

definition deduplicate_spec :: "article list \<Rightarrow> article list" where
  "deduplicate_spec L = map (\<lambda>i. L ! i) (filter (first_occurrence L) [0..<length L])"

definition unseen :: "string set \<Rightarrow> article list \<Rightarrow> nat \<Rightarrow> bool" where
  "unseen S L i =
     (canonical_key (L ! i) \<noteq> [] \<and> canonical_key (L ! i) \<notin> S \<union> canonical_key ` set (take i L))"

section \<open>The article store\<close>

text \<open>
  The table of \<^verbatim>\<open>init_database\<close>: \<^verbatim>\<open>id INTEGER PRIMARY KEY AUTOINCREMENT\<close>, \<^verbatim>\<open>title\<close> and
  \<^verbatim>\<open>source\<close> \<^verbatim>\<open>TEXT NOT NULL\<close>, \<^verbatim>\<open>url TEXT UNIQUE\<close>, and three more nullable \<^verbatim>\<open>TEXT\<close> columns.
  \<open>None\<close> is SQL's \<^verbatim>\<open>NULL\<close>. The database is the list of the table's rows, oldest first; no
  statement of the program deletes or updates a row.
\<close>

record row =
  row_id :: nat
  row_title :: string
  row_source :: string
  row_url :: "string option"
  row_date :: "string option"
  row_description :: "string option"
  row_fetched_at :: "string option"

type_synonym database = "row list"

text \<open>\<^verbatim>\<open>CREATE TABLE IF NOT EXISTS\<close>: an empty table where there was none, else no change.\<close>

definition init_database :: "database option \<Rightarrow> database" where
  "init_database existing = (case existing of None \<Rightarrow> [] | Some db \<Rightarrow> db)"

subsection \<open>Binding a Python value to a statement parameter\<close>

fun decimal :: "nat \<Rightarrow> string" where
  "decimal n = (if n < 10 then [chr (48 + n)] else decimal (n div 10) @ [chr (48 + n mod 10)])"

definition integer_text :: "int \<Rightarrow> string" where
  "integer_text i = (if i < 0 then CHR ''-'' # decimal (nat (- i)) else decimal (nat i))"

text \<open>
  The \<^verbatim>\<open>sqlite3\<close> module binds \<^verbatim>\<open>None\<close> as \<^verbatim>\<open>NULL\<close>, text as text and an integer (a boolean is
  one) as a 64-bit integer, which a column of \<^verbatim>\<open>TEXT\<close> affinity stores as its decimal text;
  it raises for an integer out of range and for a list or a dictionary.
\<close>

fun bind_parameter :: "pyval \<Rightarrow> error + string option" where
  "bind_parameter PNone = Inr None"
| "bind_parameter (PStr s) = Inr (Some s)"
| "bind_parameter (PBool b) = Inr (Some (if b then ''1'' else ''0''))"
| "bind_parameter (PInt i) =
     (if - (2 ^ 63) \<le> i \<and> i < 2 ^ 63 then Inr (Some (integer_text i)) else Inl OverflowError)"
| "bind_parameter (PList xs) = Inl InterfaceError"
| "bind_parameter (PDict d) = Inl InterfaceError"

definition and_then :: "error + 'a \<Rightarrow> ('a \<Rightarrow> error + 'b) \<Rightarrow> error + 'b" where
  "and_then r f = (case r of Inl e \<Rightarrow> Inl e | Inr x \<Rightarrow> f x)"

subsection \<open>\<^verbatim>\<open>INSERT OR IGNORE\<close>\<close>

text \<open>
  With \<^verbatim>\<open>AUTOINCREMENT\<close> the new id is one more than the largest id the table ever held,
  which is the largest id in the table, since rows are never deleted.
\<close>

definition next_id :: "database \<Rightarrow> nat" where
  "next_id db = Suc (fold max (map row_id db) 0)"

text \<open>
  A \<^verbatim>\<open>UNIQUE\<close> column holds each value other than \<^verbatim>\<open>NULL\<close> once; the empty text is a value
  like any other.
\<close>

definition url_taken :: "database \<Rightarrow> string option \<Rightarrow> bool" where
  "url_taken db u = (case u of None \<Rightarrow> False | Some v \<Rightarrow> Some v \<in> row_url ` set db)"

text \<open>
  The statement with its six bound values. \<^verbatim>\<open>OR IGNORE\<close> skips a row that breaks a
  \<^verbatim>\<open>NOT NULL\<close> or the \<^verbatim>\<open>UNIQUE\<close> constraint, without an error. The result is the database and
  \<^verbatim>\<open>cursor.rowcount\<close>.
\<close>

definition insert_or_ignore ::
  "database \<Rightarrow> string option \<Rightarrow> string option \<Rightarrow> string option \<Rightarrow> string option \<Rightarrow>
   string option \<Rightarrow> string option \<Rightarrow> database \<times> nat" where
  "insert_or_ignore db title source url date description fetched_at =
     (case (title, source) of
        (Some t, Some s) \<Rightarrow>
          if url_taken db url then (db, 0)
          else (db @ [\<lparr>row_id = next_id db, row_title = t, row_source = s, row_url = url,
                       row_date = date, row_description = description,
                       row_fetched_at = fetched_at\<rparr>], 1)
      | _ \<Rightarrow> (db, 0))"

text \<open>
  The body of the \<^verbatim>\<open>try\<close> in \<^verbatim>\<open>store_articles\<close> up to \<^verbatim>\<open>cursor.rowcount\<close>: the five subscripts,
  the clock, then the statement with its parameters bound in order.
\<close>

definition execute_insert :: "database \<Rightarrow> article \<Rightarrow> string \<Rightarrow> error + database \<times> nat" where
  "execute_insert db a now =
     and_then (subscript a ''title'') (\<lambda>title.
     and_then (subscript a ''source'') (\<lambda>source.
     and_then (subscript a ''url'') (\<lambda>url.
     and_then (subscript a ''date'') (\<lambda>date.
     and_then (subscript a ''description'') (\<lambda>description.
     and_then (bind_parameter title) (\<lambda>t.
     and_then (bind_parameter source) (\<lambda>s.
     and_then (bind_parameter url) (\<lambda>u.
     and_then (bind_parameter date) (\<lambda>d.
     and_then (bind_parameter description) (\<lambda>x.
       Inr (insert_or_ignore db t s u d x (Some now))))))))))))"

text \<open>What the program prints, one constructor for each message.\<close>

datatype message =
    Error_fetching_BBC error
  | Error_fetching_NewsAPI error
  | Error_storing_article error
  | Stored_new_articles nat
  | No_articles_to_export
  | Exported_articles nat string

text \<open>
  The loop of \<^verbatim>\<open>store_articles\<close>. \<open>clock i\<close> is the time \<^verbatim>\<open>datetime.now()\<close> gives in round \<open>i\<close>,
  formatted. An exception of a round is caught and printed, and the loop goes on.
\<close>

fun store_loop ::
  "(nat \<Rightarrow> string) \<Rightarrow> nat \<Rightarrow> article list \<Rightarrow> database \<Rightarrow> nat \<Rightarrow> message list \<Rightarrow>
   database \<times> nat \<times> message list" where
  "store_loop clock i [] db stored_count printed = (db, stored_count, printed)"
| "store_loop clock i (a # as) db stored_count printed =
     (case execute_insert db a (clock i) of
        Inl e \<Rightarrow> store_loop clock (Suc i) as db stored_count (printed @ [Error_storing_article e])
      | Inr (db', rowcount) \<Rightarrow>
          store_loop clock (Suc i) as db'
            (if rowcount > 0 then stored_count + 1 else stored_count) printed)"

text \<open>The database after the call, the final \<^verbatim>\<open>stored_count\<close>, and the lines printed.\<close>

definition store_articles ::
  "(nat \<Rightarrow> string) \<Rightarrow> database \<Rightarrow> article list \<Rightarrow> database \<times> nat \<times> message list" where
  "store_articles clock db articles =
     (case store_loop clock 0 articles db 0 [] of
        (db', stored_count, printed) \<Rightarrow>
          (db', stored_count, printed @ [Stored_new_articles stored_count]))"

text \<open>
  What holds of every database the program builds: ids grow along the rows, and no url
  other than \<^verbatim>\<open>NULL\<close> occurs twice.
\<close>

definition wf_database :: "database \<Rightarrow> bool" where
  "wf_database db =
     (sorted_wrt (<) (map row_id db) \<and> distinct (filter (\<lambda>u. u \<noteq> None) (map row_url db)))"

section \<open>Queries\<close>

subsection \<open>\<^verbatim>\<open>LOWER\<close>, \<^verbatim>\<open>LIKE\<close> and three-valued logic\<close>

text \<open>
  The SQL of the program is read with the meaning SQLite gives it, for text without the
  character U+0000 and for patterns within SQLite's limit on their length.

  SQLite's built-in \<^verbatim>\<open>LOWER\<close> folds the 26 letters A to Z and nothing else.
\<close>

definition sqlite_lower_char :: "char \<Rightarrow> char" where
  "sqlite_lower_char c = (let n = ord c in if 65 \<le> n \<and> n \<le> 90 then chr (n + 32) else c)"

definition sqlite_lower :: "string \<Rightarrow> string" where
  "sqlite_lower s = map sqlite_lower_char s"

text \<open>
  \<^verbatim>\<open>LIKE\<close> compares one character of the pattern with one of the text: equal, or both below
  U+0080 and equal after folding.
\<close>

definition like_char :: "char \<Rightarrow> char \<Rightarrow> bool" where
  "like_char p c =
     (p = c \<or> (ord p < 128 \<and> ord c < 128 \<and> sqlite_lower_char p = sqlite_lower_char c))"

text \<open>
  \<open>like p s\<close>: the text \<open>s\<close> matches the pattern \<open>p\<close>. A percent sign in the pattern stands for
  any run of characters, an underscore for any one character; the program gives no escape
  character.
\<close>

fun like :: "string \<Rightarrow> string \<Rightarrow> bool" where
  "like [] [] = True"
| "like [] (c # cs) = False"
| "like (p # ps) [] = (p = CHR ''%'' \<and> like ps [])"
| "like (p # ps) (c # cs) =
     (if p = CHR ''%'' then like ps (c # cs) \<or> like (p # ps) cs
      else (p = CHR ''_'' \<or> like_char p c) \<and> like ps cs)"

text \<open>A truth value of SQL: \<open>None\<close> is \<^verbatim>\<open>NULL\<close>, unknown.\<close>

fun sql_and :: "bool option \<Rightarrow> bool option \<Rightarrow> bool option" where
  "sql_and (Some False) y = Some False"
| "sql_and x (Some False) = Some False"
| "sql_and (Some True) (Some True) = Some True"
| "sql_and x y = None"

fun sql_or :: "bool option \<Rightarrow> bool option \<Rightarrow> bool option" where
  "sql_or (Some True) y = Some True"
| "sql_or x (Some True) = Some True"
| "sql_or (Some False) (Some False) = Some False"
| "sql_or x y = None"

definition sql_lower_like :: "string option \<Rightarrow> string \<Rightarrow> bool option" where
  "sql_lower_like column pattern = map_option (\<lambda>s. like pattern (sqlite_lower s)) column"

definition sql_equals :: "string option \<Rightarrow> string \<Rightarrow> bool option" where
  "sql_equals column v = map_option (\<lambda>s. s = v) column"

subsection \<open>\<^verbatim>\<open>query_articles\<close>\<close>

text \<open>\<^verbatim>\<open>f"%{source.lower()}%"\<close>\<close>

definition like_pattern :: "string \<Rightarrow> string" where
  "like_pattern s = CHR ''%'' # py_lower s @ [CHR ''%'']"

text \<open>
  \<^verbatim>\<open>if source:\<close> holds of an argument that is given and not empty. The conditions the function
  appends to \<^verbatim>\<open>WHERE 1=1\<close>, in its order, each as a function of the row.
\<close>

definition if_given :: "string option \<Rightarrow> (string \<Rightarrow> 'a) \<Rightarrow> 'a list" where
  "if_given arg f = (case arg of None \<Rightarrow> [] | Some s \<Rightarrow> if s \<noteq> [] then [f s] else [])"

definition conditions ::
  "string option \<Rightarrow> string option \<Rightarrow> string option \<Rightarrow> (row \<Rightarrow> bool option) list" where
  "conditions source keyword date =
     if_given source (\<lambda>s r. sql_lower_like (Some (row_source r)) (like_pattern s)) @
     if_given keyword (\<lambda>k r. sql_or (sql_lower_like (Some (row_title r)) (like_pattern k))
                                    (sql_lower_like (row_description r) (like_pattern k))) @
     if_given date (\<lambda>d r. sql_equals (row_date r) d)"

definition where_clause ::
  "string option \<Rightarrow> string option \<Rightarrow> string option \<Rightarrow> row \<Rightarrow> bool option" where
  "where_clause source keyword date r =
     foldl sql_and (Some True) (map (\<lambda>c. c r) (conditions source keyword date))"

text \<open>
  \<^verbatim>\<open>ORDER BY date DESC, id DESC\<close>. Text is compared character by character by code point, a
  proper prefix before its extensions, and \<^verbatim>\<open>NULL\<close> is below every text: this is the order
  of \<open>string option\<close>.
\<close>

definition order_by_date_desc_id_desc :: "row list \<Rightarrow> row list" where
  "order_by_date_desc_id_desc rs = rev (sort_key (\<lambda>r. (row_date r, row_id r)) rs)"

text \<open>The rows \<^verbatim>\<open>cursor.fetchall()\<close> gives, before the five columns are picked.\<close>

definition selected_rows ::
  "database \<Rightarrow> string option \<Rightarrow> string option \<Rightarrow> string option \<Rightarrow> row list" where
  "selected_rows db source keyword date =
     order_by_date_desc_id_desc (filter (\<lambda>r. where_clause source keyword date r = Some True) db)"

definition from_sql :: "string option \<Rightarrow> pyval" where
  "from_sql v = (case v of None \<Rightarrow> PNone | Some s \<Rightarrow> PStr s)"

text \<open>The dictionary built from one row of \<^verbatim>\<open>SELECT title, source, url, date, description\<close>.\<close>

definition article_of_row :: "row \<Rightarrow> article" where
  "article_of_row r =
     [(''title'', PStr (row_title r)),
      (''source'', PStr (row_source r)),
      (''url'', from_sql (row_url r)),
      (''date'', from_sql (row_date r)),
      (''description'', from_sql (row_description r))]"

definition query_articles ::
  "database \<Rightarrow> string option \<Rightarrow> string option \<Rightarrow> string option \<Rightarrow> article list" where
  "query_articles db source keyword date = map article_of_row (selected_rows db source keyword date)"

text \<open>
  The specification's wording of a match, to compare with: a filter is a case-insensitive
  substring of a text when the lowered filter occurs in the lowered text.
\<close>

definition ci_substring :: "string \<Rightarrow> string \<Rightarrow> bool" where
  "ci_substring f s = sublist (py_lower f) (py_lower s)"




section \<open>Export\<close>

text \<open>
  A file holds a document: what the encoder was given to write. Opening a file for writing
  empties it, and fails for a path that cannot be written.
\<close>

datatype document =
    Empty_file
  | Json_document "article list"
  | Csv_document "string list" "pyval list list"
  | Excel_document "article list"

record world =
  files :: "string \<Rightarrow> document option"
  unwritable :: "string set"
  printed :: "message list"

definition open_w :: "world \<Rightarrow> string \<Rightarrow> error + world" where
  "open_w w filename =
     (if filename \<in> unwritable w then Inl OSError
      else Inr (w\<lparr>files := (files w)(filename \<mapsto> Empty_file)\<rparr>))"

definition write_document :: "world \<Rightarrow> string \<Rightarrow> document \<Rightarrow> world" where
  "write_document w filename doc = w\<lparr>files := (files w)(filename \<mapsto> doc)\<rparr>"

definition print :: "world \<Rightarrow> message \<Rightarrow> world" where
  "print w m = w\<lparr>printed := printed w @ [m]\<rparr>"

text \<open>
  Each encoder gives the world after the call and the exception it ends with, if any.
  Every value of \<open>pyval\<close> has a JSON form, so \<^verbatim>\<open>json.dump\<close> does not fail.
\<close>

definition export_to_json :: "world \<Rightarrow> article list \<Rightarrow> string \<Rightarrow> world \<times> error option" where
  "export_to_json w articles filename =
     (case open_w w filename of
        Inl e \<Rightarrow> (w, Some e)
      | Inr w' \<Rightarrow>
          (print (write_document w' filename (Json_document articles))
             (Exported_articles (length articles) filename), None))"

definition fieldnames :: "string list" where
  "fieldnames = [''title'', ''source'', ''url'', ''date'', ''description'']"

text \<open>
  \<^verbatim>\<open>csv.DictWriter\<close> turns a dictionary into the list of its values under the field names, the
  empty text for a missing one, and raises \<^verbatim>\<open>ValueError\<close> for a key that is not a field name.
  \<^verbatim>\<open>writerows\<close> writes row after row, so the rows before a failing one are in the file.
\<close>

definition dict_to_list :: "article \<Rightarrow> error + pyval list" where
  "dict_to_list a =
     (if list_all (\<lambda>k. k \<in> set fieldnames) (map fst a)
      then Inr (map (\<lambda>k. case map_of a k of None \<Rightarrow> PStr [] | Some v \<Rightarrow> v) fieldnames)
      else Inl ValueError)"

fun writerows :: "article list \<Rightarrow> pyval list list \<Rightarrow> pyval list list \<times> error option" where
  "writerows [] written = (written, None)"
| "writerows (a # as) written =
     (case dict_to_list a of
        Inl e \<Rightarrow> (written, Some e)
      | Inr cells \<Rightarrow> writerows as (written @ [cells]))"

definition export_to_csv :: "world \<Rightarrow> article list \<Rightarrow> string \<Rightarrow> world \<times> error option" where
  "export_to_csv w articles filename =
     (if articles = [] then (print w No_articles_to_export, None)
      else case open_w w filename of
        Inl e \<Rightarrow> (w, Some e)
      | Inr w' \<Rightarrow>
          (case writerows articles [] of
             (written, Some e) \<Rightarrow> (write_document w' filename (Csv_document fieldnames written), Some e)
           | (written, None) \<Rightarrow>
               (print (write_document w' filename (Csv_document fieldnames written))
                  (Exported_articles (length articles) filename), None)))"

text \<open>
  \<^verbatim>\<open>DataFrame.to_excel\<close> is taken to write the frame of the given dictionaries whenever the
  file can be opened.
\<close>

definition export_to_excel :: "world \<Rightarrow> article list \<Rightarrow> string \<Rightarrow> world \<times> error option" where
  "export_to_excel w articles filename =
     (if articles = [] then (print w No_articles_to_export, None)
      else case open_w w filename of
        Inl e \<Rightarrow> (w, Some e)
      | Inr w' \<Rightarrow>
          (print (write_document w' filename (Excel_document articles))
             (Exported_articles (length articles) filename), None))"

text \<open>
  The \<^verbatim>\<open>export\<close> command of \<^verbatim>\<open>main\<close>, after its first \<^verbatim>\<open>print\<close>: \<open>timestamp\<close> is the formatted
  clock, read when no output name is given.
\<close>

datatype export_format = Json | Csv | Excel

fun format_name :: "export_format \<Rightarrow> string" where
  "format_name Json = ''json''"
| "format_name Csv = ''csv''"
| "format_name Excel = ''excel''"

definition export_command ::
  "world \<Rightarrow> database \<Rightarrow> string \<Rightarrow> string option \<Rightarrow> string option \<Rightarrow> string option \<Rightarrow>
   export_format \<Rightarrow> string option \<Rightarrow> world \<times> error option" where
  "export_command w db timestamp source keyword date fmt output =
     (let articles = query_articles db source keyword date;
          generated = ''news_export_'' @ timestamp @ ''.'' @ format_name fmt;
          filename = (case output of None \<Rightarrow> generated
                      | Some name \<Rightarrow> if name \<noteq> [] then name else generated)
      in case fmt of
           Json \<Rightarrow> export_to_json w articles filename
         | Csv \<Rightarrow> export_to_csv w articles filename
         | Excel \<Rightarrow> export_to_excel w articles filename)"

section \<open>Source adapters\<close>

subsection \<open>BBC\<close>

text \<open>
  A headline element as the scraper reads it: its text, and the attributes of the \<^verbatim>\<open>a\<close>
  element around it, if there is one. The request and the parsing of the page are the
  environment: they give the headlines of the page, or fail.
\<close>

record headline =
  get_text :: string
  find_parent_a :: "(string \<times> string) list option"

definition bbc_article :: "string \<Rightarrow> headline \<Rightarrow> error + article" where
  "bbc_article today h =
     and_then
       (case find_parent_a h of
          None \<Rightarrow> Inr []
        | Some attrs \<Rightarrow> (case map_of attrs ''href'' of None \<Rightarrow> Inl KeyError | Some v \<Rightarrow> Inr v))
       (\<lambda>article_url.
          Inr [(''title'', PStr (py_strip (get_text h))),
               (''source'', PStr ''BBC News''),
               (''url'', PStr (if article_url \<noteq> [] \<and> \<not> prefix ''http'' article_url
                               then ''https://www.bbc.com'' @ article_url else article_url)),
               (''date'', PStr today),
               (''description'', PStr [])])"

text \<open>
  The loop inside the \<^verbatim>\<open>try\<close>: an exception leaves it, and the function returns the list as
  it stands then.
\<close>

fun bbc_loop :: "string \<Rightarrow> headline list \<Rightarrow> article list \<Rightarrow> article list \<times> message list" where
  "bbc_loop today [] articles = (articles, [])"
| "bbc_loop today (h # hs) articles =
     (case bbc_article today h of
        Inl e \<Rightarrow> (articles, [Error_fetching_BBC e])
      | Inr a \<Rightarrow> bbc_loop today hs (articles @ [a]))"

definition fetch_bbc_news :: "error + headline list \<Rightarrow> string \<Rightarrow> article list \<times> message list" where
  "fetch_bbc_news page today =
     (case page of
        Inl e \<Rightarrow> ([], [Error_fetching_BBC e])
      | Inr headlines \<Rightarrow> bbc_loop today (take 20 headlines) [])"

subsection \<open>NewsAPI\<close>

text \<open>\<^verbatim>\<open>x.get(k, default)\<close>: only a dictionary has the method.\<close>

definition get :: "pyval \<Rightarrow> string \<Rightarrow> pyval \<Rightarrow> error + pyval" where
  "get x k dflt =
     (case x of
        PDict d \<Rightarrow> Inr (case map_of d k of None \<Rightarrow> dflt | Some v \<Rightarrow> v)
      | _ \<Rightarrow> Inl AttributeError)"

text \<open>\<^verbatim>\<open>x[:10]\<close>: text and lists can be sliced.\<close>

fun slice10 :: "pyval \<Rightarrow> error + pyval" where
  "slice10 (PStr s) = Inr (PStr (take 10 s))"
| "slice10 (PList xs) = Inr (PList (take 10 xs))"
| "slice10 x = Inl TypeError"

text \<open>\<^verbatim>\<open>for article in x\<close>: a list gives its items, a dictionary its keys, text its characters.\<close>

fun iterate :: "pyval \<Rightarrow> error + pyval list" where
  "iterate (PList xs) = Inr xs"
| "iterate (PDict d) = Inr (map (\<lambda>kv. PStr (fst kv)) d)"
| "iterate (PStr s) = Inr (map (\<lambda>c. PStr [c]) s)"
| "iterate x = Inl TypeError"

definition newsapi_article :: "pyval \<Rightarrow> error + article" where
  "newsapi_article article =
     and_then (get article ''title'' (PStr [])) (\<lambda>title.
     and_then (get article ''source'' (PDict [])) (\<lambda>source.
     and_then (get source ''name'' (PStr ''Unknown'')) (\<lambda>name.
     and_then (get article ''url'' (PStr [])) (\<lambda>url.
     and_then (get article ''publishedAt'' (PStr [])) (\<lambda>publishedAt.
     and_then (slice10 publishedAt) (\<lambda>date.
     and_then (get article ''description'' (PStr [])) (\<lambda>description.
       Inr [(''title'', title), (''source'', name), (''url'', url), (''date'', date),
            (''description'', description)])))))))"

fun newsapi_loop :: "pyval list \<Rightarrow> article list \<Rightarrow> article list \<times> message list" where
  "newsapi_loop [] articles = (articles, [])"
| "newsapi_loop (x # xs) articles =
     (case newsapi_article x of
        Inl e \<Rightarrow> (articles, [Error_fetching_NewsAPI e])
      | Inr a \<Rightarrow> newsapi_loop xs (articles @ [a]))"

text \<open>
  The request parameters, and the environment: \<open>request\<close> answers them with an exception of
  \<^verbatim>\<open>requests.get\<close>, or with a response whose \<^verbatim>\<open>json()\<close> raises or gives a value.
\<close>

definition newsapi_params :: "string \<Rightarrow> string option \<Rightarrow> (string \<times> pyval) list" where
  "newsapi_params api_key query =
     [(''apiKey'', PStr api_key), (''language'', PStr ''en''), (''pageSize'', PInt 20)] @
     if_given query (\<lambda>q. (''q'', PStr q))"

text \<open>
  What the loop iterates over: \<^verbatim>\<open>data.get('articles', [])\<close> when the status is \<^verbatim>\<open>'ok'\<close>, and
  nothing otherwise.
\<close>

definition newsapi_items :: "pyval \<Rightarrow> error + pyval list" where
  "newsapi_items data =
     and_then (get data ''status'' PNone) (\<lambda>status.
       if status = PStr ''ok''
       then and_then (get data ''articles'' (PList [])) iterate
       else Inr [])"

definition fetch_newsapi ::
  "((string \<times> pyval) list \<Rightarrow> error + (error + pyval)) \<Rightarrow> string \<Rightarrow> string option \<Rightarrow>
   article list \<times> message list" where
  "fetch_newsapi request api_key query =
     (case and_then (request (newsapi_params api_key query)) (\<lambda>response.
           and_then response newsapi_items) of
        Inl e \<Rightarrow> ([], [Error_fetching_NewsAPI e])
      | Inr items \<Rightarrow> newsapi_loop items [])"

section \<open>Predicates of the statements\<close>

text \<open>
  An article that the \<^verbatim>\<open>INSERT\<close> statement accepts as parameters: the five keys are there and
  each value can be bound.
\<close>

definition storable :: "article \<Rightarrow> bool" where
  "storable a =
     list_all (\<lambda>k. case map_of a k of None \<Rightarrow> False | Some v \<Rightarrow> \<not> isl (bind_parameter v))
       fieldnames"

text \<open>
  The articles built from the records before the first record that cannot be turned into
  an article.
\<close>

definition built_before_failure :: "('a \<Rightarrow> error + article) \<Rightarrow> 'a list \<Rightarrow> article list" where
  "built_before_failure f xs = map (\<lambda>x. projr (f x)) (takeWhile (\<lambda>x. \<not> isl (f x)) xs)"

text \<open>The records an adapter gets to see: none when the fetch fails before its loop.\<close>

definition bbc_headlines :: "error + headline list \<Rightarrow> headline list" where
  "bbc_headlines page = (case page of Inl e \<Rightarrow> [] | Inr headlines \<Rightarrow> take 20 headlines)"

definition newsapi_records ::
  "((string \<times> pyval) list \<Rightarrow> error + (error + pyval)) \<Rightarrow> string \<Rightarrow> string option \<Rightarrow> pyval list" where
  "newsapi_records request api_key query =
     (case request (newsapi_params api_key query) of
        Inl e \<Rightarrow> []
      | Inr (Inl e) \<Rightarrow> []
      | Inr (Inr data) \<Rightarrow> (case newsapi_items data of Inl e \<Rightarrow> [] | Inr items \<Rightarrow> items))"

text \<open>The keys of the records of a document; for a CSV document, its header.\<close>

fun document_keys :: "document \<Rightarrow> string list list" where
  "document_keys Empty_file = []"
| "document_keys (Json_document articles) = map (map fst) articles"
| "document_keys (Csv_document header written) = [header]"
| "document_keys (Excel_document articles) = map (map fst) articles"

section \<open>Example data\<close>

definition example_clock :: "nat \<Rightarrow> string" where
  "example_clock i = ''2024-01-05 12:00:00''"

definition example_article :: "string \<Rightarrow> string \<Rightarrow> pyval \<Rightarrow> string \<Rightarrow> pyval \<Rightarrow> article" where
  "example_article title source url date description =
     [(''title'', PStr title), (''source'', PStr source), (''url'', url), (''date'', PStr date),
      (''description'', description)]"

definition example_world :: world where
  "example_world = \<lparr>files = Map.empty, unwritable = {}, printed = []\<rparr>"

definition example_response :: pyval where
  "example_response =
     PDict [(''status'', PStr ''ok''), (''totalResults'', PInt 2),
            (''articles'', PList
               [PDict [(''source'', PDict [(''id'', PNone), (''name'', PStr ''Reuters'')]),
                       (''title'', PStr ''Fed Raises Rates''),
                       (''description'', PNone),
                       (''url'', PStr ''https://example.org/fed''),
                       (''publishedAt'', PStr ''2024-01-02T09:30:00Z'')],
                PDict [(''source'', PDict [(''id'', PNone), (''name'', PStr ''Reuters'')]),
                       (''title'', PStr ''Markets rally''),
                       (''description'', PNone),
                       (''url'', PStr ''https://example.org/markets''),
                       (''publishedAt'', PNone)]])]"

section \<open>Properties of deduplication\<close>

lemma title_lower_text: "has_text_title a \<Longrightarrow> title_lower a = Inr (canonical_key a)"
  by (auto simp: has_text_title_def title_lower_def canonical_key_def subscript_def
      split: option.splits pyval.splits)

lemma title_lower_Inr: "title_lower a = Inr t \<Longrightarrow> has_text_title a \<and> canonical_key a = t"
  by (auto simp: has_text_title_def title_lower_def canonical_key_def subscript_def
      split: option.splits pyval.splits)

lemma unseen_Suc:
  "unseen S (a # L) (Suc i) = unseen (insert (canonical_key a) S) L i"
  by (simp add: unseen_def)

lemma unseen_insert_seen:
  "k \<in> S \<or> k = [] \<Longrightarrow> unseen (insert k S) L i = unseen S L i"
  by (auto simp: unseen_def)

text \<open>
  The loop, started with any set of seen keys and any list built so far, appends the
  articles at the positions that are unseen with respect to that set.
\<close>

lemma deduplicate_loop_unseen:
  "list_all has_text_title L \<Longrightarrow>
   deduplicate_loop L S U = Inr (U @ map (\<lambda>i. L ! i) (filter (unseen S L) [0..<length L]))"
proof (induction L arbitrary: S U)
  case Nil
  then show ?case by simp
next
  case (Cons a L)
  have key_a: "title_lower a = Inr (canonical_key a)"
    using Cons.prems by (simp add: title_lower_text)
  have txt_L: "list_all has_text_title L"
    using Cons.prems by simp
  have upt: "[0..<length (a # L)] = 0 # map Suc [0..<length L]"
    by (simp add: upt_conv_Cons map_Suc_upt del: upt_Suc)
  have head: "unseen S (a # L) 0 = (canonical_key a \<notin> S \<and> canonical_key a \<noteq> [])"
    by (auto simp: unseen_def)
  have rest: "map (\<lambda>i. (a # L) ! i) (filter (unseen S (a # L)) (map Suc [0..<length L]))
      = map (\<lambda>i. L ! i) (filter (unseen (insert (canonical_key a) S) L) [0..<length L])"
    by (simp add: filter_map comp_def unseen_Suc)
  show ?case
  proof (cases "canonical_key a \<notin> S \<and> canonical_key a \<noteq> []")
    case True
    then show ?thesis
      using Cons.IH [OF txt_L, of "insert (canonical_key a) S" "U @ [a]"] key_a head rest
      by (simp only: upt) simp
  next
    case False
    then have "unseen (insert (canonical_key a) S) L = unseen S L"
      by (intro ext unseen_insert_seen) auto
    with False show ?thesis
      using Cons.IH [OF txt_L, of S U] key_a head rest
      by (simp only: upt) auto
  qed
qed

lemma deduplicate_loop_result:
  "deduplicate_loop L S U = Inr R \<Longrightarrow>
   \<exists>M. R = U @ M \<and> distinct (map canonical_key M) \<and>
       (\<forall>m \<in> set M. has_text_title m \<and> canonical_key m \<noteq> [] \<and> canonical_key m \<notin> S)"
proof (induction L arbitrary: S U R)
  case Nil
  then show ?case by simp
next
  case (Cons a L)
  from Cons.prems obtain t where t: "title_lower a = Inr t"
    by (cases "title_lower a") auto
  then have a: "has_text_title a" "canonical_key a = t"
    using title_lower_Inr by auto
  show ?case
  proof (cases "t \<notin> S \<and> t \<noteq> []")
    case True
    with Cons.prems t have "deduplicate_loop L (insert t S) (U @ [a]) = Inr R"
      by simp
    from Cons.IH [OF this] obtain M where M: "R = (U @ [a]) @ M" "distinct (map canonical_key M)"
      "\<forall>m \<in> set M. has_text_title m \<and> canonical_key m \<noteq> [] \<and> canonical_key m \<notin> insert t S"
      by blast
    have "R = U @ (a # M)" using M(1) by simp
    moreover have "distinct (map canonical_key (a # M))" using M(2,3) a by auto
    moreover have "\<forall>m \<in> set (a # M). has_text_title m \<and> canonical_key m \<noteq> [] \<and> canonical_key m \<notin> S"
      using M(3) a True by auto
    ultimately show ?thesis by blast
  next
    case False
    with Cons.prems t have "deduplicate_loop L S U = Inr R"
      by auto
    from Cons.IH [OF this] show ?thesis .
  qed
qed

lemma deduplicate_loop_keeps_all:
  "distinct (map canonical_key M) \<Longrightarrow>
   \<forall>m \<in> set M. has_text_title m \<and> canonical_key m \<noteq> [] \<and> canonical_key m \<notin> S \<Longrightarrow>
   deduplicate_loop M S U = Inr (U @ M)"
proof (induction M arbitrary: S U)
  case Nil
  then show ?case by simp
next
  case (Cons a M)
  have d: "distinct (map canonical_key M)"
    using Cons.prems(1) by simp
  have "canonical_key a \<notin> canonical_key ` set M"
    using Cons.prems(1) by simp
  then have "canonical_key m \<noteq> canonical_key a" if "m \<in> set M" for m
    using that by (metis image_eqI)
  then have "\<forall>m \<in> set M. has_text_title m \<and> canonical_key m \<noteq> [] \<and>
      canonical_key m \<notin> insert (canonical_key a) S"
    using Cons.prems(2) by simp
  from Cons.IH [OF d this]
  have "deduplicate_loop M (insert (canonical_key a) S) (U @ [a]) = Inr ((U @ [a]) @ M)" .
  then show ?case
    using Cons.prems by (simp add: title_lower_text)
qed

text \<open>
  C1. For every list of articles whose titles are text, \<open>deduplicate\<close> returns the articles at
  exactly the positions whose canonical key (the title lowered and stripped) is not empty
  and is not the key of an earlier position, in the order of the input.
\<close>

theorem deduplicate_first_occurrences:
  assumes "list_all has_text_title L"
  shows "deduplicate L = Inr (deduplicate_spec L)"
proof -
  have "unseen {} L = first_occurrence L"
    by (intro ext) (simp add: unseen_def first_occurrence_def)
  then show ?thesis
    using deduplicate_loop_unseen [OF assms, of "{}" "[]"]
    by (simp add: deduplicate_def deduplicate_spec_def)
qed

theorem deduplicate_first_occurrences_witness:
  "list_all has_text_title
     [[(''title'', PStr ''A'')], [(''title'', PStr ''  '')], [(''title'', PStr ''a '')],
      [(''title'', PStr ''B'')]] \<and>
   deduplicate
     [[(''title'', PStr ''A'')], [(''title'', PStr ''  '')], [(''title'', PStr ''a '')],
      [(''title'', PStr ''B'')]]
   = Inr [[(''title'', PStr ''A'')], [(''title'', PStr ''B'')]]"
proof -
  let ?L = "[[(''title'', PStr ''A'')], [(''title'', PStr ''  '')], [(''title'', PStr ''a '')],
      [(''title'', PStr ''B'')]]"
  have h: "list_all has_text_title ?L"
    by code_simp
  have "deduplicate_spec ?L = [[(''title'', PStr ''A'')], [(''title'', PStr ''B'')]]"
    by code_simp
  with h deduplicate_first_occurrences [OF h] show ?thesis
    by simp
qed

text \<open>
  C6. For every list of articles whose titles are text, \<open>deduplicate\<close> returns a list, and
  \<open>deduplicate\<close> of that list returns it again.
\<close>

theorem deduplicate_idempotent:
  assumes "list_all has_text_title L"
  shows "\<exists>M. deduplicate L = Inr M \<and> deduplicate M = Inr M"
proof -
  obtain R where R: "deduplicate_loop L {} [] = Inr R"
    using deduplicate_loop_unseen [OF assms] by blast
  from deduplicate_loop_result [OF this] have "deduplicate_loop R {} [] = Inr ([] @ R)"
    by (intro deduplicate_loop_keeps_all) auto
  with R show ?thesis
    by (simp add: deduplicate_def)
qed

theorem deduplicate_idempotent_witness:
  "list_all has_text_title
     [[(''title'', PStr ''Fed Raises Rates'')], [(''title'', PStr ''FED raises rates '')]] \<and>
   (\<exists>M. deduplicate
          [[(''title'', PStr ''Fed Raises Rates'')], [(''title'', PStr ''FED raises rates '')]]
        = Inr M \<and> deduplicate M = Inr M)"
proof -
  have h: "list_all has_text_title
     [[(''title'', PStr ''Fed Raises Rates'')], [(''title'', PStr ''FED raises rates '')]]"
    by code_simp
  with deduplicate_idempotent [OF h] show ?thesis
    by simp
qed

section \<open>Properties of the store\<close>

declare decimal.simps [simp del]



lemma insert_or_ignore_taken:
  "url_taken db u \<Longrightarrow> insert_or_ignore db t s u d x f = (db, 0)"
  by (simp add: insert_or_ignore_def split: option.splits)

lemma execute_insert_Inr:
  assumes "execute_insert db a now = Inr res"
  shows "\<exists>vt vs vu vd vx t s u d x.
           subscript a ''title'' = Inr vt \<and> subscript a ''source'' = Inr vs \<and>
           subscript a ''url'' = Inr vu \<and> subscript a ''date'' = Inr vd \<and>
           subscript a ''description'' = Inr vx \<and>
           bind_parameter vt = Inr t \<and> bind_parameter vs = Inr s \<and> bind_parameter vu = Inr u \<and>
           bind_parameter vd = Inr d \<and> bind_parameter vx = Inr x \<and>
           res = insert_or_ignore db t s u d x (Some now)"
  using assms unfolding execute_insert_def and_then_def
  by (simp split: sum.splits)

lemma wf_database_empty: "wf_database []"
  by (simp add: wf_database_def)

lemma wf_database_init: "wf_database (init_database None)"
  by (simp add: init_database_def wf_database_empty)





lemma unique_url_row_aux:
  "distinct (filter (\<lambda>v. v \<noteq> None) (map row_url db)) \<Longrightarrow> Some u \<in> row_url ` set db \<Longrightarrow>
   length (filter (\<lambda>r. row_url r = Some u) db) = 1"
proof (induction db)
  case Nil
  then show ?case by simp
next
  case (Cons r db)
  show ?case
  proof (cases "row_url r = Some u")
    case True
    with Cons.prems(1) have "Some u \<notin> row_url ` set db"
      by auto
    then have "\<forall>x \<in> set db. row_url x \<noteq> Some u"
      by (metis image_eqI)
    then have "filter (\<lambda>r. row_url r = Some u) db = []"
      by (simp add: filter_empty_conv)
    with True show ?thesis
      by simp
  next
    case False
    with Cons.prems(2) have "Some u \<in> row_url ` set db"
      by auto
    moreover have "distinct (filter (\<lambda>v. v \<noteq> None) (map row_url db))"
      using Cons.prems(1) by (simp split: if_splits)
    ultimately show ?thesis
      using Cons.IH False by simp
  qed
qed

lemma unique_url_row:
  assumes "wf_database db" "Some u \<in> row_url ` set db"
  shows "length (filter (\<lambda>r. row_url r = Some u) db) = 1"
  using assms unique_url_row_aux [of db u] by (simp add: wf_database_def)


lemma execute_insert_url:
  assumes "map_of a ''url'' = Some (PStr u)" "execute_insert db a now = Inr res"
  shows "\<exists>t s d x. res = insert_or_ignore db t s (Some u) d x (Some now)"
proof -
  from execute_insert_Inr [OF assms(2)] obtain vu t s u' d x
    where "subscript a ''url'' = Inr vu" "bind_parameter vu = Inr u'"
      "res = insert_or_ignore db t s u' d x (Some now)"
    by blast
  with assms(1) show ?thesis
    by (fastforce simp: subscript_def)
qed

lemma storable_execute_insert:
  assumes "storable a"
  shows "\<exists>res. execute_insert db a now = Inr res"
proof -
  have "\<exists>v w. subscript a k = Inr v \<and> bind_parameter v = Inr w" if "k \<in> set fieldnames" for k
    using assms that unfolding storable_def list_all_iff subscript_def
    by (cases "map_of a k"; cases "bind_parameter (the (map_of a k))") auto
  then have
    "\<exists>v w. subscript a ''title'' = Inr v \<and> bind_parameter v = Inr w"
    "\<exists>v w. subscript a ''source'' = Inr v \<and> bind_parameter v = Inr w"
    "\<exists>v w. subscript a ''url'' = Inr v \<and> bind_parameter v = Inr w"
    "\<exists>v w. subscript a ''date'' = Inr v \<and> bind_parameter v = Inr w"
    "\<exists>v w. subscript a ''description'' = Inr v \<and> bind_parameter v = Inr w"
    by (simp_all add: fieldnames_def)
  then show ?thesis
    unfolding execute_insert_def and_then_def by auto
qed

lemma store_one:
  "store_articles clock db [a] =
     (case execute_insert db a (clock 0) of
        Inl e \<Rightarrow> (db, 0, [Error_storing_article e, Stored_new_articles 0])
      | Inr (db', rowcount) \<Rightarrow>
          (db', (if rowcount > 0 then 1 else 0),
           [Stored_new_articles (if rowcount > 0 then 1 else 0)]))"
  by (simp add: store_articles_def split: sum.splits prod.splits)

text \<open>
  C2. In every well-formed database, storing an article whose url is a text that some row
  already has changes nothing: the rows are the same, exactly one of them has that url, the
  count of new articles is 0, and for an article that can be bound no error is caught
  either. The url may be any text; the claim speaks of the non-empty ones.
\<close>

theorem store_articles_existing_url:
  assumes "wf_database db" and "map_of a ''url'' = Some (PStr u)"
    and "Some u \<in> row_url ` set db"
  shows "fst (store_articles clock db [a]) = db \<and>
         fst (snd (store_articles clock db [a])) = 0 \<and>
         length (filter (\<lambda>r. row_url r = Some u) (fst (store_articles clock db [a]))) = 1 \<and>
         (storable a \<longrightarrow> snd (snd (store_articles clock db [a])) = [Stored_new_articles 0])"
proof -
  have taken: "url_taken db (Some u)"
    using assms(3) by (simp add: url_taken_def)
  have ignored: "res = (db, 0)" if "execute_insert db a (clock 0) = Inr res" for res
    using execute_insert_url [OF assms(2) that] insert_or_ignore_taken [OF taken] by auto
  have one: "length (filter (\<lambda>r. row_url r = Some u) db) = 1"
    using unique_url_row [OF assms(1,3)] .
  show ?thesis
  proof (cases "execute_insert db a (clock 0)")
    case (Inl e)
    moreover have "\<not> storable a"
      using storable_execute_insert [of a db "clock 0"] Inl by auto
    ultimately show ?thesis
      using one by (simp add: store_one)
  next
    case (Inr res)
    with ignored have "execute_insert db a (clock 0) = Inr (db, 0)"
      by simp
    then show ?thesis
      using one by (simp add: store_one)
  qed
qed


theorem store_articles_existing_url_witness:
  "wf_database (fst (store_articles example_clock []
      [example_article ''Fed Raises Rates'' ''BBC News'' (PStr ''https://www.bbc.com/news/1'')
         ''2024-01-01'' (PStr [])])) \<and>
   store_articles example_clock
     (fst (store_articles example_clock []
        [example_article ''Fed Raises Rates'' ''BBC News'' (PStr ''https://www.bbc.com/news/1'')
           ''2024-01-01'' (PStr [])]))
     [example_article ''Fed Raises Rates'' ''BBC News'' (PStr ''https://www.bbc.com/news/1'')
        ''2024-01-01'' (PStr [])]
   = (fst (store_articles example_clock []
        [example_article ''Fed Raises Rates'' ''BBC News'' (PStr ''https://www.bbc.com/news/1'')
           ''2024-01-01'' (PStr [])]), 0, [Stored_new_articles 0]) \<and>
   length (fst (store_articles example_clock []
      [example_article ''Fed Raises Rates'' ''BBC News'' (PStr ''https://www.bbc.com/news/1'')
         ''2024-01-01'' (PStr [])])) = 1"
proof -
  let ?a = "example_article ''Fed Raises Rates'' ''BBC News'' (PStr ''https://www.bbc.com/news/1'')
         ''2024-01-01'' (PStr [])"
  let ?db = "fst (store_articles example_clock [] [?a])"
  have h1: "wf_database ?db"
    by code_simp
  have h2: "map_of ?a ''url'' = Some (PStr ''https://www.bbc.com/news/1'')"
    by code_simp
  have h3: "Some ''https://www.bbc.com/news/1'' \<in> row_url ` set ?db"
    by code_simp
  have h4: "storable ?a"
    by code_simp
  have h5: "length ?db = 1"
    by code_simp
  from store_articles_existing_url [OF h1 h2 h3, of example_clock] h4
  have "store_articles example_clock ?db [?a] = (?db, 0, [Stored_new_articles 0])"
    by (metis prod.collapse)
  with h1 h5 show ?thesis
    by blast
qed










lemma sorted_order_by:
  assumes "distinct (map row_id rs)"
  shows "sorted_wrt (\<lambda>r s. row_date s < row_date r \<or> (row_date s = row_date r \<and> row_id s < row_id r))
           (order_by_date_desc_id_desc rs)"
proof -
  let ?key = "\<lambda>r. (row_date r, row_id r)"
  let ?L = "sort_key ?key rs"
  have d: "distinct rs" and inj: "inj_on row_id (set rs)"
    using assms by (simp_all add: distinct_map)
  have "inj_on ?key (set rs)"
    using inj by (auto simp: inj_on_def)
  with d have "distinct (map ?key ?L)"
    by (simp add: distinct_map)
  moreover have "sorted (map ?key ?L)"
    by (rule sorted_sort_key)
  ultimately have "sorted_wrt (<) (map ?key ?L)"
    by (simp add: strict_sorted_iff)
  then have "sorted_wrt (\<lambda>r s. ?key s < ?key r) (rev ?L)"
    by (simp add: sorted_wrt_map sorted_wrt_rev)
  moreover have "(?key s < ?key r) = (row_date s < row_date r \<or> (row_date s = row_date r \<and> row_id s < row_id r))"
    for r s :: row
    by (auto simp: less_prod_def')
  ultimately show ?thesis
    by (simp add: order_by_date_desc_id_desc_def)
qed

lemma set_order_by: "set (order_by_date_desc_id_desc rs) = set rs"
  by (simp add: order_by_date_desc_id_desc_def)

lemma wf_database_distinct_ids: "wf_database db \<Longrightarrow> distinct (map row_id (filter P db))"
proof -
  assume "wf_database db"
  then have "sorted_wrt (<) (map row_id db)"
    by (simp add: wf_database_def)
  then have "distinct (map row_id db)"
    by (simp add: strict_sorted_iff)
  then show ?thesis
    by (simp add: distinct_map_filter)
qed

text \<open>
  C4. In every well-formed database and for every combination of filters, \<open>query_articles\<close>
  returns the articles of the selected rows, which are exactly the rows that satisfy the
  \<^verbatim>\<open>WHERE\<close> clause, ordered by date descending and, for equal dates, by id descending. The
  order of dates is that of the column: text, with \<^verbatim>\<open>NULL\<close> last. In a well-formed database
  ids grow in the order of insertion.
\<close>

theorem query_articles_ordering:
  assumes "wf_database db"
  shows "query_articles db source keyword date
           = map article_of_row (selected_rows db source keyword date) \<and>
         sorted_wrt (\<lambda>r s. row_date s < row_date r \<or> (row_date s = row_date r \<and> row_id s < row_id r))
           (selected_rows db source keyword date) \<and>
         set (selected_rows db source keyword date)
           = {r \<in> set db. where_clause source keyword date r = Some True}"
  using sorted_order_by [OF wf_database_distinct_ids [OF assms]]
  by (simp add: query_articles_def selected_rows_def set_order_by)

theorem query_articles_ordering_witness:
  "wf_database (fst (store_articles example_clock []
      [example_article ''first'' ''BBC News'' (PStr ''u1'') ''2024-01-01'' (PStr []),
       example_article ''second'' ''BBC News'' (PStr ''u2'') ''2024-01-03'' (PStr []),
       example_article ''third'' ''BBC News'' (PStr ''u3'') ''2024-01-02'' (PStr []),
       example_article ''fourth'' ''BBC News'' (PStr ''u4'') ''2024-01-03'' (PStr [])])) \<and>
   map (\<lambda>r. (row_date r, row_id r))
     (selected_rows (fst (store_articles example_clock []
        [example_article ''first'' ''BBC News'' (PStr ''u1'') ''2024-01-01'' (PStr []),
         example_article ''second'' ''BBC News'' (PStr ''u2'') ''2024-01-03'' (PStr []),
         example_article ''third'' ''BBC News'' (PStr ''u3'') ''2024-01-02'' (PStr []),
         example_article ''fourth'' ''BBC News'' (PStr ''u4'') ''2024-01-03'' (PStr [])]))
        None None None)
   = [(Some ''2024-01-03'', 4), (Some ''2024-01-03'', 2), (Some ''2024-01-02'', 3),
      (Some ''2024-01-01'', 1)] \<and>
   sorted_wrt (\<lambda>r s. row_date s < row_date r \<or> (row_date s = row_date r \<and> row_id s < row_id r))
     (selected_rows (fst (store_articles example_clock []
        [example_article ''first'' ''BBC News'' (PStr ''u1'') ''2024-01-01'' (PStr []),
         example_article ''second'' ''BBC News'' (PStr ''u2'') ''2024-01-03'' (PStr []),
         example_article ''third'' ''BBC News'' (PStr ''u3'') ''2024-01-02'' (PStr []),
         example_article ''fourth'' ''BBC News'' (PStr ''u4'') ''2024-01-03'' (PStr [])]))
        None None None)"
proof -
  let ?db = "fst (store_articles example_clock []
      [example_article ''first'' ''BBC News'' (PStr ''u1'') ''2024-01-01'' (PStr []),
       example_article ''second'' ''BBC News'' (PStr ''u2'') ''2024-01-03'' (PStr []),
       example_article ''third'' ''BBC News'' (PStr ''u3'') ''2024-01-02'' (PStr []),
       example_article ''fourth'' ''BBC News'' (PStr ''u4'') ''2024-01-03'' (PStr [])])"
  have h: "wf_database ?db"
    by code_simp
  have e: "map (\<lambda>r. (row_date r, row_id r)) (selected_rows ?db None None None)
      = [(Some ''2024-01-03'', 4), (Some ''2024-01-03'', 2), (Some ''2024-01-02'', 3),
         (Some ''2024-01-01'', 1)]"
    by code_simp
  from query_articles_ordering [OF h, of None None None] h e show ?thesis
    by blast
qed

section \<open>Properties of queries\<close>

subsection \<open>Characters\<close>


















subsection \<open>The \<^verbatim>\<open>WHERE\<close> clause\<close>












text \<open>
  Two more ways in which the query is not the substring test. A capital beyond U+007F is
  lowered by Python in the filter and by nothing in the column. An empty date filter asks
  nothing, where equality would select the rows without a date.
\<close>

lemma query_articles_latin1_capital:
  "query_articles
     (fst (store_articles example_clock []
        [example_article (CHR 0xC9 # ''cole'') ''Le Monde'' (PStr ''u1'') ''2024-01-01'' (PStr [])]))
     None (Some [CHR 0xC9]) None = [] \<and>
   ci_substring [CHR 0xC9] (CHR 0xC9 # ''cole'')"
  by code_simp

lemma query_articles_empty_date:
  "query_articles
     (fst (store_articles example_clock []
        [example_article ''Fed Raises Rates'' ''BBC News'' (PStr ''u1'') ''2024-01-01'' (PStr [])]))
     None None (Some [])
   = [example_article ''Fed Raises Rates'' ''BBC News'' (PStr ''u1'') ''2024-01-01'' (PStr [])]"
  by code_simp



section \<open>Properties of export and of the adapters\<close>

text \<open>Given no articles, the CSV and the Excel encoder print one line and touch no file.\<close>

lemma export_to_csv_empty: "export_to_csv w [] filename = (print w No_articles_to_export, None)"
  by (simp add: export_to_csv_def)

lemma export_to_excel_empty: "export_to_excel w [] filename = (print w No_articles_to_export, None)"
  by (simp add: export_to_excel_def)

lemma export_to_json_empty:
  "filename \<notin> unwritable w \<Longrightarrow>
   files (fst (export_to_json w [] filename)) filename = Some (Json_document [])"
  by (simp add: export_to_json_def open_w_def write_document_def print_def)

text \<open>
  C7 fails for the JSON encoder. Given no articles and the name of a file that does not
  exist, \<open>export_to_json\<close> creates the file with the document of the empty list, and prints
  that it exported 0 articles.
\<close>

theorem export_to_json_empty_writes:
  "files example_world ''out.json'' = None \<and>
   files (fst (export_to_json example_world [] ''out.json'')) ''out.json'' = Some (Json_document []) \<and>
   printed (fst (export_to_json example_world [] ''out.json'')) = [Exported_articles 0 ''out.json''] \<and>
   snd (export_to_json example_world [] ''out.json'') = None"
  by (simp add: example_world_def export_to_json_def open_w_def write_document_def print_def)

lemma bbc_loop_built:
  "fst (bbc_loop today hs articles) = articles @ built_before_failure (bbc_article today) hs"
  by (induction hs arbitrary: articles)
    (auto simp: built_before_failure_def split: sum.splits)

lemma newsapi_loop_built:
  "fst (newsapi_loop xs articles) = articles @ built_before_failure newsapi_article xs"
  by (induction xs arbitrary: articles)
    (auto simp: built_before_failure_def split: sum.splits)

text \<open>A fetch that fails before the loop gives no article and prints the exception.\<close>

lemma fetch_bbc_news_fails: "fetch_bbc_news (Inl e) today = ([], [Error_fetching_BBC e])"
  by (simp add: fetch_bbc_news_def)

lemma fetch_newsapi_request_fails:
  "request (newsapi_params api_key query) = Inl e \<Longrightarrow>
   fetch_newsapi request api_key query = ([], [Error_fetching_NewsAPI e])"
  by (simp add: fetch_newsapi_def and_then_def)

lemma fetch_newsapi_undecodable:
  "request (newsapi_params api_key query) = Inr (Inl e) \<Longrightarrow>
   fetch_newsapi request api_key query = ([], [Error_fetching_NewsAPI e])"
  by (simp add: fetch_newsapi_def and_then_def)

lemma fetch_newsapi_not_a_dictionary:
  "request (newsapi_params api_key query) = Inr (Inr (PList xs)) \<Longrightarrow>
   fetch_newsapi request api_key query = ([], [Error_fetching_NewsAPI AttributeError])"
  by (simp add: fetch_newsapi_def and_then_def newsapi_items_def get_def)

text \<open>
  C8, as amended. Neither adapter raises: an exception inside its \<^verbatim>\<open>try\<close> ends the loop, and
  the adapter returns the articles built until then. These are the articles of the
  records before the first record that cannot be turned into an article, where the records
  are the first 20 headlines of the page, or the items of the response; there are no records
  when the request fails, when the response cannot be decoded, and when the payload is not a
  dictionary with items to iterate over.
\<close>

theorem adapters_return_built_articles:
  "fst (fetch_bbc_news page today)
     = built_before_failure (bbc_article today) (bbc_headlines page) \<and>
   fst (fetch_newsapi request api_key query)
     = built_before_failure newsapi_article (newsapi_records request api_key query)"
  by (auto simp: fetch_bbc_news_def bbc_headlines_def fetch_newsapi_def newsapi_records_def
      and_then_def bbc_loop_built newsapi_loop_built built_before_failure_def split: sum.splits)

text \<open>
  Against C8 as it was stated: the second record of the response has \<^verbatim>\<open>null\<close> where the date
  should be, slicing it raises \<^verbatim>\<open>TypeError\<close>, and the adapter returns the first article.
\<close>

theorem fetch_newsapi_partial_counterexample:
  "fetch_newsapi (\<lambda>params. Inr (Inr example_response)) ''key'' None
   = ([[(''title'', PStr ''Fed Raises Rates''), (''source'', PStr ''Reuters''),
        (''url'', PStr ''https://example.org/fed''), (''date'', PStr ''2024-01-02''),
        (''description'', PNone)]],
      [Error_fetching_NewsAPI TypeError])"
  by code_simp

lemma article_of_row_keys: "map fst (article_of_row r) = fieldnames"
  by (simp add: article_of_row_def fieldnames_def)

lemma query_articles_keys:
  "a \<in> set (query_articles db source keyword date) \<Longrightarrow> map fst a = fieldnames"
  by (auto simp: query_articles_def article_of_row_keys)

lemma export_to_json_documents:
  assumes "files (fst (export_to_json w articles filename)) name = Some doc" "files w name \<noteq> Some doc"
  shows "doc = Json_document articles"
  using assms
  by (auto simp: export_to_json_def open_w_def write_document_def print_def
      split: if_splits)

lemma export_to_csv_documents:
  assumes "files (fst (export_to_csv w articles filename)) name = Some doc" "files w name \<noteq> Some doc"
  shows "\<exists>written. doc = Csv_document fieldnames written"
  using assms
  by (auto simp: export_to_csv_def open_w_def write_document_def print_def
      split: if_splits prod.splits option.splits)

lemma export_to_excel_documents:
  assumes "files (fst (export_to_excel w articles filename)) name = Some doc" "files w name \<noteq> Some doc"
  shows "doc = Excel_document articles"
  using assms
  by (auto simp: export_to_excel_def open_w_def write_document_def print_def
      split: if_splits)

text \<open>
  C9. Every dictionary that \<open>query_articles\<close> returns has exactly the keys \<^verbatim>\<open>title\<close>, \<^verbatim>\<open>source\<close>,
  \<^verbatim>\<open>url\<close>, \<^verbatim>\<open>date\<close> and \<^verbatim>\<open>description\<close>, in this order; and every document that the export
  command writes has records with exactly these keys, so \<^verbatim>\<open>id\<close> and \<^verbatim>\<open>fetched_at\<close> are in
  neither.
\<close>

theorem query_articles_fields:
  "(\<forall>a \<in> set (query_articles db source keyword date).
      map fst a = [''title'', ''source'', ''url'', ''date'', ''description'']) \<and>
   (\<forall>doc. files (fst (export_command w db timestamp source keyword date fmt output)) name = Some doc \<and>
          files w name \<noteq> Some doc \<longrightarrow>
          (\<forall>keys \<in> set (document_keys doc).
             keys = [''title'', ''source'', ''url'', ''date'', ''description'']))"
proof (intro conjI allI impI ballI)
  fix a assume "a \<in> set (query_articles db source keyword date)"
  then show "map fst a = [''title'', ''source'', ''url'', ''date'', ''description'']"
    using query_articles_keys by (simp add: fieldnames_def)
next
  fix doc keys
  assume h: "files (fst (export_command w db timestamp source keyword date fmt output)) name = Some doc \<and>
          files w name \<noteq> Some doc"
    and k: "keys \<in> set (document_keys doc)"
  let ?articles = "query_articles db source keyword date"
  obtain filename where run: "export_command w db timestamp source keyword date fmt output
      = (case fmt of Json \<Rightarrow> export_to_json w ?articles filename
         | Csv \<Rightarrow> export_to_csv w ?articles filename
         | Excel \<Rightarrow> export_to_excel w ?articles filename)"
    by (simp add: export_command_def Let_def)
  have "keys = fieldnames"
  proof (cases fmt)
    case Json
    with h run have "files (fst (export_to_json w ?articles filename)) name = Some doc"
      "files w name \<noteq> Some doc"
      by simp_all
    then have "doc = Json_document ?articles"
      by (rule export_to_json_documents)
    with k show ?thesis
      using query_articles_keys by auto
  next
    case Csv
    with h run have "files (fst (export_to_csv w ?articles filename)) name = Some doc"
      "files w name \<noteq> Some doc"
      by simp_all
    from export_to_csv_documents [OF this]
    obtain written where "doc = Csv_document fieldnames written" ..
    with k show ?thesis
      by simp
  next
    case Excel
    with h run have "files (fst (export_to_excel w ?articles filename)) name = Some doc"
      "files w name \<noteq> Some doc"
      by simp_all
    then have "doc = Excel_document ?articles"
      by (rule export_to_excel_documents)
    with k show ?thesis
      using query_articles_keys by auto
  qed
  then show "keys = [''title'', ''source'', ''url'', ''date'', ''description'']"
    by (simp add: fieldnames_def)
qed

theorem query_articles_fields_witness:
  "example_article ''Fed Raises Rates'' ''BBC News'' (PStr ''u1'') ''2024-01-01'' (PStr [])
     \<in> set (query_articles
         (fst (store_articles example_clock []
            [example_article ''Fed Raises Rates'' ''BBC News'' (PStr ''u1'') ''2024-01-01'' (PStr [])]))
         None None None) \<and>
   map fst (example_article ''Fed Raises Rates'' ''BBC News'' (PStr ''u1'') ''2024-01-01'' (PStr []))
     = [''title'', ''source'', ''url'', ''date'', ''description''] \<and>
   files (fst (export_command example_world
       (fst (store_articles example_clock []
          [example_article ''Fed Raises Rates'' ''BBC News'' (PStr ''u1'') ''2024-01-01'' (PStr [])]))
       ''20240105_120000'' None None None Json (Some ''out.json''))) ''out.json''
     = Some (Json_document
        [example_article ''Fed Raises Rates'' ''BBC News'' (PStr ''u1'') ''2024-01-01'' (PStr [])]) \<and>
   files example_world ''out.json''
     \<noteq> Some (Json_document
        [example_article ''Fed Raises Rates'' ''BBC News'' (PStr ''u1'') ''2024-01-01'' (PStr [])]) \<and>
   document_keys (Json_document
        [example_article ''Fed Raises Rates'' ''BBC News'' (PStr ''u1'') ''2024-01-01'' (PStr [])])
     = [[''title'', ''source'', ''url'', ''date'', ''description'']]"
proof -
  let ?a = "example_article ''Fed Raises Rates'' ''BBC News'' (PStr ''u1'') ''2024-01-01'' (PStr [])"
  let ?db = "fst (store_articles example_clock [] [?a])"
  have h1: "?a \<in> set (query_articles ?db None None None)"
    by code_simp
  have h2: "files (fst (export_command example_world ?db ''20240105_120000'' None None None Json
      (Some ''out.json''))) ''out.json'' = Some (Json_document [?a])"
    by code_simp
  have h3: "files example_world ''out.json'' \<noteq> Some (Json_document [?a])"
    by (simp add: example_world_def)
  have h4: "document_keys (Json_document [?a]) = [map fst ?a]"
    by simp
  note fields = query_articles_fields [of ?db None None None example_world "''20240105_120000''" Json
      "Some ''out.json''" "''out.json''"]
  from fields have "\<forall>a \<in> set (query_articles ?db None None None).
      map fst a = [''title'', ''source'', ''url'', ''date'', ''description'']"
    by (rule conjunct1)
  from this h1 have k1: "map fst ?a = [''title'', ''source'', ''url'', ''date'', ''description'']"
    by (rule bspec)
  from fields have "\<forall>doc. files (fst (export_command example_world ?db ''20240105_120000'' None None
        None Json (Some ''out.json''))) ''out.json'' = Some doc \<and>
      files example_world ''out.json'' \<noteq> Some doc \<longrightarrow>
      (\<forall>keys \<in> set (document_keys doc).
         keys = [''title'', ''source'', ''url'', ''date'', ''description''])"
    by (rule conjunct2)
  then have "files (fst (export_command example_world ?db ''20240105_120000'' None None
        None Json (Some ''out.json''))) ''out.json'' = Some (Json_document [?a]) \<and>
      files example_world ''out.json'' \<noteq> Some (Json_document [?a]) \<longrightarrow>
      (\<forall>keys \<in> set (document_keys (Json_document [?a])).
         keys = [''title'', ''source'', ''url'', ''date'', ''description''])"
    by (rule spec)
  moreover from h2 h3 have "files (fst (export_command example_world ?db ''20240105_120000'' None None
        None Json (Some ''out.json''))) ''out.json'' = Some (Json_document [?a]) \<and>
      files example_world ''out.json'' \<noteq> Some (Json_document [?a])"
    by (rule conjI)
  ultimately have written: "\<forall>keys \<in> set (document_keys (Json_document [?a])).
      keys = [''title'', ''source'', ''url'', ''date'', ''description'']"
    by (rule mp)
  have "map fst ?a \<in> set (document_keys (Json_document [?a]))"
    unfolding h4 by simp
  with written have "map fst ?a = [''title'', ''source'', ''url'', ''date'', ''description'']"
    by (rule bspec)
  with h4 have k2: "document_keys (Json_document [?a])
      = [[''title'', ''source'', ''url'', ''date'', ''description'']]"
    by (simp only:)
  from h1 k1 h2 h3 k2 show ?thesis
    by (intro conjI)
qed

end
